theory Spec2Isabelle
  imports Complex_Main
begin

section \<open>The QR-decomposition exercise of Homework1.ipynb\<close>

text \<open>
  The notebook \<^verbatim>\<open>Fall2020/Assignments/Homework1.ipynb\<close> holds four Python functions
  for the QR decomposition: \<^verbatim>\<open>normalize_col\<close>, \<^verbatim>\<open>proj_a2b\<close>, \<^verbatim>\<open>orthogonalize\<close> and
  \<^verbatim>\<open>qr_decomposition\<close>. The first three are given with a signature, a docstring and the
  body \<^verbatim>\<open>pass\<close>; only \<^verbatim>\<open>qr_decomposition\<close> has a body that computes. The development
  below embeds the four functions as the notebook has them, over an explicit store of
  numpy arrays, so that aliasing between the argument and the working copy is visible.
\<close>

subsection \<open>Values, arrays and the store\<close>

text \<open>
  A cell of a float array, in exact arithmetic: a real number, or numpy's \<^verbatim>\<open>nan\<close>.
  \<^verbatim>\<open>nan\<close> is absorbing for addition and multiplication.
\<close>

datatype cell = Num real | NaN

fun cell_add :: "cell \<Rightarrow> cell \<Rightarrow> cell" where
  "cell_add (Num x) (Num y) = Num (x + y)"
| "cell_add _ _ = NaN"

fun cell_mul :: "cell \<Rightarrow> cell \<Rightarrow> cell" where
  "cell_mul (Num x) (Num y) = Num (x * y)"
| "cell_mul _ _ = NaN"

text \<open>
  A two-dimensional \<^verbatim>\<open>np.array\<close>: its shape \<^verbatim>\<open>(nrows, ncols)\<close> and its cells, row by row.
\<close>

record ndarray =
  nrows :: nat
  ncols :: nat
  cells :: "cell list list"

text \<open>\<^verbatim>\<open>np.array(rows)\<close> on a rectangular list of rows of floats.\<close>

definition np_array :: "real list list \<Rightarrow> ndarray" where
  "np_array rows =
     \<lparr>nrows = length rows,
      ncols = (case rows of [] \<Rightarrow> 0 | r # _ \<Rightarrow> length r),
      cells = map (map Num) rows\<rparr>"

text \<open>
  The store: arrays live at addresses (indices of the list); allocation appends.
  A Python variable holds \<^verbatim>\<open>None\<close> or a reference to an array; the slice \<^verbatim>\<open>X[:, j]\<close>
  is a view, a reference to column \<open>j\<close> of the array at an address.
\<close>

type_synonym addr = nat

type_synonym heap = "ndarray list"

datatype pyval = PNone | Array addr

datatype colview = Column addr nat

datatype error = AssertionError | IndexError | TypeError | ValueError | AttributeError

definition alloc :: "heap \<Rightarrow> ndarray \<Rightarrow> heap \<times> addr" where
  "alloc h X = (h @ [X], length h)"

text \<open>\<^verbatim>\<open>np.copy(A)\<close>: a new array with the shape and cells of \<open>A\<close>.\<close>

definition np_copy :: "heap \<Rightarrow> addr \<Rightarrow> heap \<times> addr" where
  "np_copy h A = alloc h (h ! A)"

text \<open>
  Reading \<^verbatim>\<open>X[:, j]\<close>: \<^verbatim>\<open>None\<close> is not subscriptable (TypeError); on an array the index
  must lie below the number of columns (IndexError).
\<close>

fun subscript_col :: "heap \<Rightarrow> pyval \<Rightarrow> nat \<Rightarrow> error + colview" where
  "subscript_col h PNone j = Inl TypeError"
| "subscript_col h (Array a) j =
     (if j < ncols (h ! a) then Inr (Column a j) else Inl IndexError)"

definition set_column :: "ndarray \<Rightarrow> nat \<Rightarrow> cell list \<Rightarrow> ndarray" where
  "set_column X j col = X\<lparr>cells := map (\<lambda>(r, c). r[j := c]) (zip (cells X) col)\<rparr>"

definition get_row :: "ndarray \<Rightarrow> nat \<Rightarrow> cell list" where
  "get_row X i = cells X ! i"

definition get_column :: "ndarray \<Rightarrow> nat \<Rightarrow> cell list" where
  "get_column X j = map (\<lambda>r. r ! j) (cells X)"

text \<open>
  Writing \<^verbatim>\<open>X[:, j] = v\<close>. \<^verbatim>\<open>None\<close> does not support item assignment (TypeError); the
  index is checked as for reading. The value is broadcast into the column: \<^verbatim>\<open>None\<close> is
  converted to \<^verbatim>\<open>nan\<close> in every cell of a float array; a two-dimensional value fits only
  with shape \<open>(1, m)\<close> or \<open>(1, 1)\<close> (ValueError otherwise).
\<close>

fun store_col :: "heap \<Rightarrow> pyval \<Rightarrow> nat \<Rightarrow> pyval \<Rightarrow> error + heap" where
  "store_col h PNone j v = Inl TypeError"
| "store_col h (Array a) j v =
     (let X = h ! a in
      if \<not> j < ncols X then Inl IndexError
      else case v of
        PNone \<Rightarrow> Inr (h[a := set_column X j (replicate (nrows X) NaN)])
      | Array b \<Rightarrow>
          (let V = h ! b in
           if nrows V = 1 \<and> ncols V = nrows X
             then Inr (h[a := set_column X j (get_row V 0)])
           else if nrows V = 1 \<and> ncols V = 1
             then Inr (h[a := set_column X j (replicate (nrows X) (get_row V 0 ! 0))])
           else Inl ValueError))"

text \<open>The transpose \<^verbatim>\<open>X.T\<close> and the matrix product \<^verbatim>\<open>X @ Y\<close> of two-dimensional arrays.\<close>

definition nd_T :: "ndarray \<Rightarrow> ndarray" where
  "nd_T X =
     \<lparr>nrows = ncols X, ncols = nrows X,
      cells = map (\<lambda>j. get_column X j) [0..<ncols X]\<rparr>"

definition dot :: "cell list \<Rightarrow> cell list \<Rightarrow> cell" where
  "dot xs ys = foldl cell_add (Num 0) (map (\<lambda>(x, y). cell_mul x y) (zip xs ys))"

definition nd_matmul :: "ndarray \<Rightarrow> ndarray \<Rightarrow> error + ndarray" where
  "nd_matmul X Y =
     (if ncols X \<noteq> nrows Y then Inl ValueError
      else Inr \<lparr>nrows = nrows X, ncols = ncols Y,
                cells = map (\<lambda>i. map (\<lambda>j. dot (get_row X i) (get_column Y j)) [0..<ncols Y])
                            [0..<nrows X]\<rparr>)"

text \<open>
  \<^verbatim>\<open>Q.T @ A\<close> for a variable \<open>Q\<close> and the array at \<open>A\<close>: \<^verbatim>\<open>None\<close> has no attribute
  \<^verbatim>\<open>T\<close>; the product is a new array.
\<close>

fun matmul_T :: "heap \<Rightarrow> pyval \<Rightarrow> addr \<Rightarrow> error + heap \<times> addr" where
  "matmul_T h PNone A = Inl AttributeError"
| "matmul_T h (Array q) A =
     (case nd_matmul (nd_T (h ! q)) (h ! A) of
        Inl e \<Rightarrow> Inl e
      | Inr R \<Rightarrow> Inr (alloc h R))"

subsection \<open>The four functions of the notebook\<close>

text \<open>
  Each function takes the store and returns the store with an error or a value.
  The bodies of the three helpers are \<^verbatim>\<open>pass\<close>: they touch nothing and return \<^verbatim>\<open>None\<close>.

  \<^verbatim>\<open>def normalize_col(x): pass\<close>
\<close>

definition normalize_col :: "heap \<Rightarrow> colview \<Rightarrow> heap \<times> (error + pyval)" where
  "normalize_col h x = (h, Inr PNone)"

text \<open>\<^verbatim>\<open>def proj_a2b(a, b): pass\<close>\<close>

definition proj_a2b :: "heap \<Rightarrow> colview \<Rightarrow> colview \<Rightarrow> heap \<times> (error + pyval)" where
  "proj_a2b h a b = (h, Inr PNone)"

text \<open>\<^verbatim>\<open>def orthogonalize(U, n): pass\<close>\<close>

definition orthogonalize :: "heap \<Rightarrow> pyval \<Rightarrow> nat \<Rightarrow> heap \<times> (error + pyval)" where
  "orthogonalize h U n = (h, Inr PNone)"

text \<open>
  The loop of \<^verbatim>\<open>qr_decomposition\<close>, over the indices of \<^verbatim>\<open>range(1, m)\<close>:

  \<^verbatim>\<open>for i in range(1, m):\<close>
  \<^verbatim>\<open>    Q = orthogonalize(Q, i)\<close>
  \<^verbatim>\<open>    Q[:, i] = normalize_col(Q[:, i])\<close>

  The right-hand side of the assignment is evaluated first, its argument \<^verbatim>\<open>Q[:, i]\<close>
  before the call.
\<close>

fun qr_loop :: "heap \<Rightarrow> pyval \<Rightarrow> nat list \<Rightarrow> heap \<times> (error + pyval)" where
  "qr_loop h Q [] = (h, Inr Q)"
| "qr_loop h Q (i # rest) =
     (case orthogonalize h Q i of
        (h1, Inl e) \<Rightarrow> (h1, Inl e)
      | (h1, Inr Q1) \<Rightarrow>
          (case subscript_col h1 Q1 i of
             Inl e \<Rightarrow> (h1, Inl e)
           | Inr x \<Rightarrow>
               (case normalize_col h1 x of
                  (h2, Inl e) \<Rightarrow> (h2, Inl e)
                | (h2, Inr v) \<Rightarrow>
                    (case store_col h2 Q1 i v of
                       Inl e \<Rightarrow> (h2, Inl e)
                     | Inr h3 \<Rightarrow> qr_loop h3 Q1 rest))))"

text \<open>
  \<^verbatim>\<open>def qr_decomposition(A):\<close>
  \<^verbatim>\<open>    m, n = A.shape\<close>
  \<^verbatim>\<open>    assert m == n\<close>
  \<^verbatim>\<open>    Q = np.copy(A)\<close>
  \<^verbatim>\<open>    Q[:, 0] = normalize_col(A[:, 0])\<close>
  \<^verbatim>\<open>    for i in range(1, m): ...\<close>
  \<^verbatim>\<open>    R = Q.T @ A\<close>
  \<^verbatim>\<open>    return Q, R\<close>

  The argument is the address of a two-dimensional array in the store.
\<close>

definition qr_decomposition :: "heap \<Rightarrow> addr \<Rightarrow> heap \<times> (error + pyval \<times> pyval)" where
  "qr_decomposition h A =
     (let m = nrows (h ! A); n = ncols (h ! A) in
      if m \<noteq> n then (h, Inl AssertionError)
      else
        (case np_copy h A of (h1, q) \<Rightarrow>
          (case subscript_col h1 (Array A) 0 of
             Inl e \<Rightarrow> (h1, Inl e)
           | Inr x \<Rightarrow>
               (case normalize_col h1 x of
                  (h2, Inl e) \<Rightarrow> (h2, Inl e)
                | (h2, Inr v) \<Rightarrow>
                    (case store_col h2 (Array q) 0 v of
                       Inl e \<Rightarrow> (h2, Inl e)
                     | Inr h3 \<Rightarrow>
                         (case qr_loop h3 (Array q) [1..<m] of
                            (h4, Inl e) \<Rightarrow> (h4, Inl e)
                          | (h4, Inr Q) \<Rightarrow>
                              (case matmul_T h4 Q A of
                                 Inl e \<Rightarrow> (h4, Inl e)
                               | Inr (h5, r) \<Rightarrow> (h5, Inr (Q, Array r)))))))))"

text \<open>
  How a call ends: the exception it raises, or none when it returns.
\<close>

definition raised :: "error + 'a \<Rightarrow> error option" where
  "raised r = (case r of Inl e \<Rightarrow> Some e | Inr _ \<Rightarrow> None)"

subsection \<open>What the code does on each shape\<close>

lemma qr_loop_nonempty: "rest \<noteq> [] \<Longrightarrow> qr_loop h Q rest = (h, Inl TypeError)"
  by (cases rest) (simp_all add: orthogonalize_def)

lemma qr_not_square:
  assumes "nrows (h ! A) \<noteq> ncols (h ! A)"
  shows "qr_decomposition h A = (h, Inl AssertionError)"
  using assms by (simp add: qr_decomposition_def)

lemma qr_square_0:
  assumes "A < length h" and "nrows (h ! A) = ncols (h ! A)" and "ncols (h ! A) = 0"
  shows "qr_decomposition h A = (h @ [h ! A], Inl IndexError)"
  using assms by (simp add: qr_decomposition_def np_copy_def alloc_def nth_append)

lemma qr_square_1:
  assumes "A < length h" and "nrows (h ! A) = ncols (h ! A)" and "ncols (h ! A) = 1"
  shows "\<exists>Q R. qr_decomposition h A =
           (h @ [Q, R], Inr (Array (length h), Array (Suc (length h))))"
  using assms
  by (simp add: qr_decomposition_def np_copy_def alloc_def nth_append normalize_col_def
      Let_def nd_matmul_def nd_T_def set_column_def)

lemma qr_square_ge2:
  assumes "A < length h" and "nrows (h ! A) = ncols (h ! A)" and "2 \<le> ncols (h ! A)"
  shows "qr_decomposition h A =
           (h @ [set_column (h ! A) 0 (replicate (nrows (h ! A)) NaN)], Inl TypeError)"
  using assms
  by (simp add: qr_decomposition_def np_copy_def alloc_def nth_append normalize_col_def
      qr_loop_nonempty Let_def)

lemma shape_cases:
  fixes X :: ndarray
  obtains (rect) "nrows X \<noteq> ncols X"
  | (empty) "nrows X = ncols X" "ncols X = 0"
  | (one) "nrows X = ncols X" "ncols X = 1"
  | (more) "nrows X = ncols X" "2 \<le> ncols X"
  by (cases "nrows X = ncols X"; cases "ncols X = 0"; cases "ncols X = 1") auto

lemma qr_raised:
  assumes "A < length h"
  shows "raised (snd (qr_decomposition h A)) =
           (if nrows (h ! A) \<noteq> ncols (h ! A) then Some AssertionError
            else if ncols (h ! A) = 0 then Some IndexError
            else if ncols (h ! A) = 1 then None
            else Some TypeError)"
proof (cases "h ! A" rule: shape_cases)
  case rect
  then show ?thesis by (simp add: qr_not_square raised_def)
next
  case empty
  with assms show ?thesis by (simp add: qr_square_0 raised_def)
next
  case one
  with assms obtain Q R where
    "qr_decomposition h A = (h @ [Q, R], Inr (Array (length h), Array (Suc (length h))))"
    using qr_square_1 by blast
  with one show ?thesis by (simp add: raised_def)
next
  case more
  with assms show ?thesis by (simp add: qr_square_ge2 raised_def)
qed

subsection \<open>The shape check\<close>

text \<open>
  C4. For every input whose number of rows differs from its number of columns,
  \<^verbatim>\<open>qr_decomposition\<close> fails at \<^verbatim>\<open>assert m == n\<close>, the shape check of the function
  (the error of kind ShapeMismatch), before anything is allocated or written; it returns
  no result.
\<close>

theorem qr_decomposition_non_square:
  assumes "A < length h" and "nrows (h ! A) \<noteq> ncols (h ! A)"
  shows "qr_decomposition h A = (h, Inl AssertionError)"
  using assms(2) by (rule qr_not_square)

theorem qr_decomposition_non_square_witness:
  "(0::nat) < length [np_array [[1, 2, 3], [4, 5, 6]]]
   \<and> nrows ([np_array [[1, 2, 3], [4, 5, 6]]] ! 0) \<noteq> ncols ([np_array [[1, 2, 3], [4, 5, 6]]] ! 0)
   \<and> qr_decomposition [np_array [[1, 2, 3], [4, 5, 6]]] 0
       = ([np_array [[1, 2, 3], [4, 5, 6]]], Inl AssertionError)"
  using qr_decomposition_non_square [of 0 "[np_array [[1, 2, 3], [4, 5, 6]]]"]
  by (simp add: np_array_def)

subsection \<open>The caller's matrix\<close>

text \<open>
  C10. Whatever the input (square or not) and whether the call returns or raises,
  \<^verbatim>\<open>qr_decomposition\<close> leaves the caller's matrix as it was: every array that was in the
  store at the call, the argument among them, is unchanged afterwards, since every write
  goes to the copy made by \<^verbatim>\<open>np.copy\<close>. When the call returns, its two results are arrays
  allocated during the call, distinct from each other.
\<close>

theorem qr_decomposition_frame:
  assumes "A < length h"
  shows "fst (qr_decomposition h A) ! A = h ! A
         \<and> take (length h) (fst (qr_decomposition h A)) = h
         \<and> (\<forall>Q R. snd (qr_decomposition h A) = Inr (Q, R) \<longrightarrow>
               (\<exists>q r. Q = Array q \<and> R = Array r \<and> length h \<le> q \<and> length h \<le> r \<and> q \<noteq> r))"
proof (cases "h ! A" rule: shape_cases)
  case rect
  then show ?thesis by (simp add: qr_not_square)
next
  case empty
  with assms show ?thesis by (simp add: qr_square_0 nth_append)
next
  case one
  with assms obtain Q R where
    "qr_decomposition h A = (h @ [Q, R], Inr (Array (length h), Array (Suc (length h))))"
    using qr_square_1 by blast
  with assms show ?thesis by (simp add: nth_append)
next
  case more
  with assms show ?thesis by (simp add: qr_square_ge2 nth_append)
qed

theorem qr_decomposition_frame_witness:
  "(0::nat) < length [np_array [[5]]]
   \<and> fst (qr_decomposition [np_array [[5]]] 0) ! 0 = np_array [[5]]
   \<and> take 1 (fst (qr_decomposition [np_array [[5]]] 0)) = [np_array [[5]]]
   \<and> snd (qr_decomposition [np_array [[5]]] 0) = Inr (Array 1, Array 2)"
proof -
  have run: "qr_decomposition [np_array [[5]]] 0 =
      ([np_array [[5]], \<lparr>nrows = 1, ncols = 1, cells = [[NaN]]\<rparr>,
        \<lparr>nrows = 1, ncols = 1, cells = [[NaN]]\<rparr>], Inr (Array 1, Array 2))"
    by (simp add: qr_decomposition_def np_array_def np_copy_def alloc_def normalize_col_def
        set_column_def nd_matmul_def nd_T_def dot_def get_row_def get_column_def)
  show ?thesis
    using qr_decomposition_frame [of 0 "[np_array [[5]]]"] by (simp add: run)
qed

subsection \<open>Degenerate input\<close>

text \<open>
  C5, as stated: a rank-deficient square input makes \<^verbatim>\<open>qr_decomposition\<close> fail, and
  \<^verbatim>\<open>normalize_col\<close> fails on a vector of norm zero. On the code neither happens:
  \<^verbatim>\<open>normalize_col\<close> returns on the zero column of a 2-by-1 array, and
  \<^verbatim>\<open>qr_decomposition\<close> returns two arrays of \<^verbatim>\<open>nan\<close> on the 1-by-1 zero matrix.
\<close>

theorem degenerate_input_not_rejected:
  "snd (normalize_col [np_array [[0], [0]]] (Column 0 0)) = Inr PNone
   \<and> qr_decomposition [np_array [[0]]] 0 =
       ([np_array [[0]], \<lparr>nrows = 1, ncols = 1, cells = [[NaN]]\<rparr>,
         \<lparr>nrows = 1, ncols = 1, cells = [[NaN]]\<rparr>], Inr (Array 1, Array 2))"
  by (simp add: qr_decomposition_def np_array_def np_copy_def alloc_def normalize_col_def
      set_column_def nd_matmul_def nd_T_def dot_def get_row_def get_column_def)

text \<open>
  C5, amended: the code has no guard against degenerate input. \<^verbatim>\<open>normalize_col\<close> never
  raises, whatever its argument (a vector of norm zero included). The only check
  \<^verbatim>\<open>qr_decomposition\<close> makes on its input is the shape assertion: it fails with
  AssertionError exactly when the input is not square, and whether it returns or raises,
  and with which exception, depends on the shape of the input alone, never on its
  cells. So a rank-deficient matrix ends the call exactly as an invertible matrix of the
  same shape does, and none is rejected as degenerate.
\<close>

theorem no_degenerate_guard:
  assumes "A < length h" and "B < length h'"
    and "nrows (h ! A) = nrows (h' ! B)" and "ncols (h ! A) = ncols (h' ! B)"
  shows "\<not> isl (snd (normalize_col h x))
         \<and> (snd (qr_decomposition h A) = Inl AssertionError)
             = (nrows (h ! A) \<noteq> ncols (h ! A))
         \<and> raised (snd (qr_decomposition h A)) = raised (snd (qr_decomposition h' B))"
proof -
  have "\<not> isl (snd (normalize_col h x))"
    by (simp add: normalize_col_def)
  moreover have "(snd (qr_decomposition h A) = Inl AssertionError)
                   = (nrows (h ! A) \<noteq> ncols (h ! A))"
    using qr_raised [OF assms(1)] by (auto simp: raised_def split: sum.splits if_splits)
  moreover have "raised (snd (qr_decomposition h A)) = raised (snd (qr_decomposition h' B))"
    using assms(3,4) by (simp add: qr_raised [OF assms(1)] qr_raised [OF assms(2)])
  ultimately show ?thesis by simp
qed

theorem no_degenerate_guard_witness:
  "(0::nat) < length [np_array [[0]]] \<and> (0::nat) < length [np_array [[5]]]
   \<and> nrows ([np_array [[0]]] ! 0) = nrows ([np_array [[5]]] ! 0)
   \<and> ncols ([np_array [[0]]] ! 0) = ncols ([np_array [[5]]] ! 0)
   \<and> \<not> isl (snd (normalize_col [np_array [[0]]] (Column 0 0)))
   \<and> snd (qr_decomposition [np_array [[0]]] 0) \<noteq> Inl AssertionError
   \<and> raised (snd (qr_decomposition [np_array [[0]]] 0)) = None
   \<and> raised (snd (qr_decomposition [np_array [[5]]] 0)) = None"
proof -
  have run: "snd (qr_decomposition [np_array [[5]]] 0) = Inr (Array 1, Array 2)"
    by (simp add: qr_decomposition_def np_array_def np_copy_def alloc_def normalize_col_def
        set_column_def nd_matmul_def nd_T_def)
  show ?thesis
    using no_degenerate_guard [of 0 "[np_array [[0]]]" 0 "[np_array [[5]]]" "Column 0 0"] run
    by (simp add: np_array_def raised_def)
qed

subsection \<open>The helpers on concrete vectors\<close>

text \<open>
  C6. The docstring of \<^verbatim>\<open>normalize_col\<close> promises the normalized version of \<open>x\<close>, the
  vector divided by its Euclidean norm; for the column \<open>(3, 4)\<close> that is \<open>(3/5, 4/5)\<close>.
  The body is \<^verbatim>\<open>pass\<close>: on that column the function returns \<^verbatim>\<open>None\<close>.
\<close>

theorem normalize_col_returns_None:
  "normalize_col [np_array [[3], [4]]] (Column 0 0) = ([np_array [[3], [4]]], Inr PNone)"
  by (simp add: normalize_col_def)

text \<open>
  C7. The docstring of \<^verbatim>\<open>proj_a2b\<close> promises the projection of \<open>a\<close> onto \<open>b\<close>; for
  \<open>a = (1, 2)\<close> and \<open>b = (1, 0)\<close>, the columns of the array below, that is \<open>(1, 0)\<close>.
  The body is \<^verbatim>\<open>pass\<close>: the function returns \<^verbatim>\<open>None\<close>.
\<close>

theorem proj_a2b_returns_None:
  "proj_a2b [np_array [[1, 1], [2, 0]]] (Column 0 0) (Column 0 1)
     = ([np_array [[1, 1], [2, 0]]], Inr PNone)"
  by (simp add: proj_a2b_def)

text \<open>
  C8. The docstring of \<^verbatim>\<open>orthogonalize\<close> promises the matrix with its nth column
  orthogonalized against the columns before it; for the matrix with columns \<open>(1, 0)\<close> and
  \<open>(1, 1)\<close> and \<open>n = 1\<close> the second column would become \<open>(0, 1)\<close>. The body is
  \<^verbatim>\<open>pass\<close>: the matrix is left as it was and the function returns \<^verbatim>\<open>None\<close>.
\<close>

theorem orthogonalize_returns_None:
  "orthogonalize [np_array [[1, 1], [0, 1]]] (Array 0) 1
     = ([np_array [[1, 1], [0, 1]]], Inr PNone)"
  by (simp add: orthogonalize_def)

subsection \<open>The decomposition on concrete matrices\<close>

text \<open>
  C1. On the matrix the notebook itself decomposes, which is invertible,
  \<^verbatim>\<open>qr_decomposition\<close> returns no pair \<open>(Q, R)\<close>: \<^verbatim>\<open>orthogonalize\<close> hands back
  \<^verbatim>\<open>None\<close>, and the slice \<^verbatim>\<open>Q[:, 1]\<close> of \<^verbatim>\<open>None\<close> raises TypeError.
\<close>

theorem qr_decomposition_notebook_matrix:
  "snd (qr_decomposition [np_array [[1, 1/2, 1/5], [1/2, 1/2, 1], [0, 1, 1]]] 0)
     = Inl TypeError"
  by (simp add: qr_decomposition_def np_array_def np_copy_def alloc_def normalize_col_def
      set_column_def orthogonalize_def qr_loop_nonempty)

text \<open>
  C2. On the invertible matrix with rows \<open>(3, 1)\<close> and \<open>(4, 2)\<close> the call raises
  TypeError in the first round of the loop: no orthonormal \<open>Q\<close> is returned.
\<close>

theorem qr_decomposition_no_Q:
  "snd (qr_decomposition [np_array [[3, 1], [4, 2]]] 0) = Inl TypeError"
  by (simp add: qr_decomposition_def np_array_def np_copy_def alloc_def normalize_col_def
      set_column_def orthogonalize_def qr_loop_nonempty)

text \<open>
  C3. On the invertible matrix with rows \<open>(1, 2)\<close> and \<open>(3, 4)\<close> the call raises
  TypeError before \<^verbatim>\<open>R = Q.T @ A\<close> is reached: no upper-triangular \<open>R\<close> is returned.
\<close>

theorem qr_decomposition_no_R:
  "snd (qr_decomposition [np_array [[1, 2], [3, 4]]] 0) = Inl TypeError"
  by (simp add: qr_decomposition_def np_array_def np_copy_def alloc_def normalize_col_def
      set_column_def orthogonalize_def qr_loop_nonempty)

text \<open>
  C9. On the 3-by-3 identity matrix the call raises TypeError instead of returning the
  identity twice.
\<close>

theorem qr_decomposition_identity:
  "snd (qr_decomposition [np_array [[1, 0, 0], [0, 1, 0], [0, 0, 1]]] 0) = Inl TypeError"
  by (simp add: qr_decomposition_def np_array_def np_copy_def alloc_def normalize_col_def
      set_column_def orthogonalize_def qr_loop_nonempty)

end
